theory Spec2Isabelle
  imports Main
begin

section \<open>Data model (move.py, engine.py)\<close>

text \<open>
  A board cell is the empty string or a two-letter code, colour then piece type
  (\<^verbatim>\<open>"wP"\<close>, \<^verbatim>\<open>"bK"\<close>, ...).  The empty string is \<open>None\<close>; a code is
  \<open>Some (colour, kind)\<close>.  \<^verbatim>\<open>cell.startswith(c)\<close> is \<open>starts_with\<close>, and the
  truth value of a cell is \<open>cell \<noteq> None\<close>.
\<close>

datatype colour = White | Black

datatype kind = Pawn | Rook | Knight | Bishop | Queen | King

type_synonym cell = "(colour \<times> kind) option"

type_synonym board = "int \<times> int \<Rightarrow> cell"

datatype error = IndexError | ValueError

text \<open>
  Class \<^verbatim>\<open>Move\<close>.  Rows and columns are Python integers; every move the engine builds
  has them in 0..7.  The fields \<^verbatim>\<open>primary_move\<close> (never passed, always None) and the display
  label \<^verbatim>\<open>PGN\<close> are left out: nothing in the engine reads them.  \<^verbatim>\<open>move_id\<close> is
  computed once from the four coordinates, so it is a function of them (below).
\<close>

datatype move = Move
  (startRow: int) (startCol: int)
  (endRow: int) (endCol: int)
  (piece_moved: cell)
  (piece_captured_row: int) (piece_captured_col: int)
  (piece_captured: cell)
  (secondary_move: "move option")

record game_state =
  board :: board
  white_move :: bool
  movelog :: "move list"
  checkmate :: bool
  stalemate :: bool
  white_king_loc :: "int \<times> int"
  black_king_loc :: "int \<times> int"

definition starts_with :: "cell \<Rightarrow> colour \<Rightarrow> bool" where
  "starts_with p c = (case p of None \<Rightarrow> False | Some (c', k) \<Rightarrow> c' = c)"

definition on_board :: "int \<Rightarrow> int \<Rightarrow> bool" where
  "on_board r c = (0 \<le> r \<and> r < 8 \<and> 0 \<le> c \<and> c < 8)"

subsection \<open>Move.__init__, move_id, __eq__\<close>

text \<open>
  \<^verbatim>\<open>captured_row if captured_row else self.endRow\<close>: an argument that is None or 0
  falls back to the end square's coordinate.
\<close>

definition or_else :: "int option \<Rightarrow> int \<Rightarrow> int" where
  "or_else a d = (case a of None \<Rightarrow> d | Some v \<Rightarrow> if v \<noteq> 0 then v else d)"

definition new_move ::
  "board \<Rightarrow> int \<times> int \<Rightarrow> int \<times> int \<Rightarrow> int option \<Rightarrow> int option \<Rightarrow> move option \<Rightarrow> move" where
  "new_move b start end captured_row captured_col secondary =
     (let cr = or_else captured_row (fst end);
          cc = or_else captured_col (snd end)
      in Move (fst start) (snd start) (fst end) (snd end) (b start) cr cc (b (cr, cc)) secondary)"

text \<open>
  \<^verbatim>\<open>int(f"{startRow}{startCol}{endRow}{endCol}")\<close> for non-negative coordinates:
  writing the decimal digits of \<open>b\<close> after those of \<open>a\<close> is \<open>a * 10 ^ digits b + b\<close>.
\<close>

fun ndigits :: "nat \<Rightarrow> nat" where
  "ndigits n = (if n < 10 then 1 else Suc (ndigits (n div 10)))"

definition dcat :: "nat \<Rightarrow> nat \<Rightarrow> nat" where
  "dcat a b = a * 10 ^ ndigits b + b"

definition move_id :: "move \<Rightarrow> nat" where
  "move_id m = dcat (dcat (dcat (nat (startRow m)) (nat (startCol m))) (nat (endRow m))) (nat (endCol m))"

definition move_eq :: "move \<Rightarrow> move \<Rightarrow> bool" where
  "move_eq m m' = (move_id m = move_id m')"

subsection \<open>GameState.__init__\<close>

definition back_rank :: "colour \<Rightarrow> cell list" where
  "back_rank c = map (\<lambda>k. Some (c, k)) [Rook, Knight, Bishop, Queen, King, Bishop, Knight, Rook]"

definition init_rows :: "cell list list" where
  "init_rows =
     [back_rank Black,
      replicate 8 (Some (Black, Pawn)),
      replicate 8 None,
      replicate 8 None,
      replicate 8 None,
      replicate 8 None,
      replicate 8 (Some (White, Pawn)),
      back_rank White]"

definition board_of_rows :: "cell list list \<Rightarrow> board" where
  "board_of_rows rows = (\<lambda>(r, c). if on_board r c then rows ! nat r ! nat c else None)"

definition GameState :: game_state where
  "GameState =
     \<lparr>board = board_of_rows init_rows, white_move = True, movelog = [],
      checkmate = False, stalemate = False,
      white_king_loc = (7, 4), black_king_loc = (0, 4)\<rparr>"

subsection \<open>make_move, undo_move\<close>

text \<open>
  \<^verbatim>\<open>make_move(move, log=True)\<close>.  With a secondary move the method calls itself on it with
  \<^verbatim>\<open>log=False\<close> and the turn is flipped by the innermost call only.
\<close>

fun make_move :: "move \<Rightarrow> bool \<Rightarrow> game_state \<Rightarrow> game_state" where
  "make_move (Move sr sc er ec pm cr cc pc sec) log s =
     (let b1 = (board s)((sr, sc) := None);
          b2 = b1((cr, cc) := None);
          b3 = b2((er, ec) := pm);
          s1 = s\<lparr>board := b3\<rparr>;
          s2 = (if log then s1\<lparr>movelog := movelog s1 @ [Move sr sc er ec pm cr cc pc sec]\<rparr> else s1);
          s3 = (if pm = Some (White, King) then s2\<lparr>white_king_loc := (er, ec)\<rparr> else s2);
          s4 = (if pm = Some (Black, King) then s3\<lparr>black_king_loc := (er, ec)\<rparr> else s3)
      in case sec of
           Some m2 \<Rightarrow> make_move m2 False s4
         | None \<Rightarrow> s4\<lparr>white_move := \<not> white_move s4\<rparr>)"

definition restore :: "move \<Rightarrow> board \<Rightarrow> board" where
  "restore m b =
     (let b1 = b((startRow m, startCol m) := piece_moved m);
          b2 = b1((endRow m, endCol m) := None)
      in b2((piece_captured_row m, piece_captured_col m) := piece_captured m))"

definition undo_move :: "game_state \<Rightarrow> game_state" where
  "undo_move s =
     (if movelog s \<noteq> [] then
        (let m = last (movelog s);
             s1 = s\<lparr>movelog := butlast (movelog s)\<rparr>;
             s2 = s1\<lparr>board := restore m (board s1)\<rparr>;
             s3 = (case secondary_move m of
                     Some m2 \<Rightarrow> s2\<lparr>board := restore m2 (board s2)\<rparr>
                   | None \<Rightarrow> s2)
         in s3\<lparr>white_move := \<not> white_move s3\<rparr>)
      else s)"

subsection \<open>Pseudo-legal move generation\<close>

definition turn :: "game_state \<Rightarrow> colour" where
  "turn s = (if white_move s then White else Black)"

definition add_move :: "game_state \<Rightarrow> int \<times> int \<Rightarrow> int \<times> int \<Rightarrow> move list \<Rightarrow> move list" where
  "add_move s start end moves = moves @ [new_move (board s) start end None None None]"

text \<open>\<^verbatim>\<open>get_pawn_moves\<close>: a diagonal step is appended whenever the target cell is non-empty.\<close>

definition get_pawn_moves :: "game_state \<Rightarrow> move list \<Rightarrow> int \<Rightarrow> int \<Rightarrow> move list" where
  "get_pawn_moves s moves row_no col_no =
     (if white_move s then
        (let m1 = (if 0 \<le> row_no - 1 \<and> row_no - 1 < 8 \<and> board s (row_no - 1, col_no) = None then
                     (let m = add_move s (row_no, col_no) (row_no - 1, col_no) moves
                      in if row_no = 6 \<and> board s (row_no - 2, col_no) = None
                         then add_move s (row_no, col_no) (row_no - 2, col_no) m else m)
                   else moves);
             m2 = (if 0 \<le> row_no - 1 \<and> row_no - 1 < 8 \<and> 0 \<le> col_no - 1 \<and> col_no - 1 < 8
                      \<and> board s (row_no - 1, col_no - 1) \<noteq> None
                   then add_move s (row_no, col_no) (row_no - 1, col_no - 1) m1 else m1)
         in if 0 \<le> row_no - 1 \<and> row_no - 1 < 8 \<and> col_no + 1 < 8
               \<and> board s (row_no - 1, col_no + 1) \<noteq> None
            then add_move s (row_no, col_no) (row_no - 1, col_no + 1) m2 else m2)
      else
        (let m1 = (if 0 \<le> row_no + 1 \<and> row_no + 1 < 8 \<and> board s (row_no + 1, col_no) = None then
                     (let m = add_move s (row_no, col_no) (row_no + 1, col_no) moves
                      in if row_no = 1 \<and> board s (row_no + 2, col_no) = None
                         then add_move s (row_no, col_no) (row_no + 2, col_no) m else m)
                   else moves);
             m2 = (if 0 \<le> row_no + 1 \<and> row_no + 1 < 8 \<and> 0 \<le> col_no - 1 \<and> col_no - 1 < 8
                      \<and> board s (row_no + 1, col_no - 1) \<noteq> None
                   then add_move s (row_no, col_no) (row_no + 1, col_no - 1) m1 else m1)
         in if 0 \<le> row_no + 1 \<and> row_no + 1 < 8 \<and> col_no + 1 < 8
               \<and> board s (row_no + 1, col_no + 1) \<noteq> None
            then add_move s (row_no, col_no) (row_no + 1, col_no + 1) m2 else m2))"

text \<open>
  \<^verbatim>\<open>get_en_passant\<close>.  \<^verbatim>\<open>last_move.piece_moved[1]\<close> raises IndexError when the piece
  recorded in the last move is the empty string.
\<close>

definition ep_move :: "game_state \<Rightarrow> int \<times> int \<Rightarrow> int \<times> int \<Rightarrow> move \<Rightarrow> move" where
  "ep_move s start end last_move =
     new_move (board s) start end (Some (endRow last_move)) (Some (endCol last_move)) None"

definition ep_side ::
  "game_state \<Rightarrow> move list \<Rightarrow> int \<Rightarrow> int \<Rightarrow> move \<Rightarrow> int \<Rightarrow> int \<Rightarrow> int \<Rightarrow> int \<Rightarrow> move list" where
  "ep_side s moves row_no col_no last_move own_row from_row to_row step =
     (let col_right = col_no + 1; col_left = col_no - 1
      in if row_no = own_row then
           (if startRow last_move = from_row \<and> endRow last_move = to_row then
              (if endCol last_move = col_right then
                 moves @ [ep_move s (row_no, col_no) (row_no + step, col_right) last_move]
               else if endCol last_move = col_left then
                 moves @ [ep_move s (row_no, col_no) (row_no + step, col_left) last_move]
               else moves)
            else moves)
         else moves)"

definition get_en_passant :: "game_state \<Rightarrow> move list \<Rightarrow> int \<Rightarrow> int \<Rightarrow> error + move list" where
  "get_en_passant s moves row_no col_no =
     (if movelog s \<noteq> [] then
        (let last_move = last (movelog s)
         in case piece_moved last_move of
              None \<Rightarrow> Inl IndexError
            | Some (c, k) \<Rightarrow>
                if k = Pawn then
                  (if white_move s
                   then Inr (ep_side s moves row_no col_no last_move 3 1 3 (- 1))
                   else Inr (ep_side s moves row_no col_no last_move 5 1 5 1))
                else Inr moves)
      else Inr moves)"

text \<open>Pieces that step: the king's nine offsets in loop order, the knight's eight.\<close>

fun step_moves ::
  "game_state \<Rightarrow> int \<Rightarrow> int \<Rightarrow> (int \<times> int) list \<Rightarrow> move list \<Rightarrow> move list" where
  "step_moves s row_no col_no [] moves = moves"
| "step_moves s row_no col_no ((i, j) # offs) moves =
     (if 0 \<le> row_no + i \<and> row_no + i < 8 \<and> 0 \<le> col_no + j \<and> col_no + j < 8 then
        (if \<not> starts_with (board s (row_no + i, col_no + j)) (turn s)
         then step_moves s row_no col_no offs (add_move s (row_no, col_no) (row_no + i, col_no + j) moves)
         else step_moves s row_no col_no offs moves)
      else step_moves s row_no col_no offs moves)"

definition king_offsets :: "(int \<times> int) list" where
  "king_offsets = [(- 1, - 1), (- 1, 0), (- 1, 1), (0, - 1), (0, 0), (0, 1), (1, - 1), (1, 0), (1, 1)]"

definition get_king_moves :: "game_state \<Rightarrow> move list \<Rightarrow> int \<Rightarrow> int \<Rightarrow> move list" where
  "get_king_moves s moves row_no col_no = step_moves s row_no col_no king_offsets moves"

definition knight_offsets :: "(int \<times> int) list" where
  "knight_offsets = [(2, 1), (2, - 1), (1, 2), (1, - 2), (- 2, 1), (- 2, - 1), (- 1, 2), (- 1, - 2)]"

definition get_knight_moves :: "game_state \<Rightarrow> move list \<Rightarrow> int \<Rightarrow> int \<Rightarrow> move list" where
  "get_knight_moves s moves row_no col_no = step_moves s row_no col_no knight_offsets moves"

text \<open>
  Pieces that slide: the inner loop \<^verbatim>\<open>for i in range(1, 8)\<close> along one direction, left by
  \<^verbatim>\<open>break\<close> at the first occupied cell; an off-board square is skipped, not a stop.
\<close>

fun ray :: "game_state \<Rightarrow> int \<Rightarrow> int \<Rightarrow> int \<times> int \<Rightarrow> int list \<Rightarrow> move list \<Rightarrow> move list" where
  "ray s row_no col_no d [] moves = moves"
| "ray s row_no col_no d (i # is) moves =
     (let end_row = row_no + fst d * i; end_col = col_no + snd d * i
      in if 0 \<le> end_row \<and> end_row < 8 \<and> 0 \<le> end_col \<and> end_col < 8 then
           (let endpiece = board s (end_row, end_col);
                moves' = (if \<not> starts_with endpiece (turn s)
                          then add_move s (row_no, col_no) (end_row, end_col) moves else moves)
            in if endpiece \<noteq> None then moves' else ray s row_no col_no d is moves')
         else ray s row_no col_no d is moves)"

fun rays :: "game_state \<Rightarrow> int \<Rightarrow> int \<Rightarrow> (int \<times> int) list \<Rightarrow> move list \<Rightarrow> move list" where
  "rays s row_no col_no [] moves = moves"
| "rays s row_no col_no (d # ds) moves =
     rays s row_no col_no ds (ray s row_no col_no d [1, 2, 3, 4, 5, 6, 7] moves)"

definition get_rook_moves :: "game_state \<Rightarrow> move list \<Rightarrow> int \<Rightarrow> int \<Rightarrow> move list" where
  "get_rook_moves s moves row_no col_no =
     rays s row_no col_no [(- 1, 0), (0, - 1), (1, 0), (0, 1)] moves"

definition get_bishop_moves :: "game_state \<Rightarrow> move list \<Rightarrow> int \<Rightarrow> int \<Rightarrow> move list" where
  "get_bishop_moves s moves row_no col_no =
     rays s row_no col_no [(- 1, - 1), (1, 1), (- 1, 1), (1, - 1)] moves"

text \<open>
  \<^verbatim>\<open>get_queen_moves\<close>: \<^verbatim>\<open>moves.extend(self.get_rook_moves(moves, ...))\<close>.  The callee appends
  to \<^verbatim>\<open>moves\<close> and returns that same list, so \<^verbatim>\<open>extend\<close> appends the list to itself; likewise for
  the bishop part.
\<close>

definition get_queen_moves :: "game_state \<Rightarrow> move list \<Rightarrow> int \<Rightarrow> int \<Rightarrow> move list" where
  "get_queen_moves s moves row_no col_no =
     (let m1 = get_rook_moves s moves row_no col_no;
          m2 = m1 @ m1;
          m3 = get_bishop_moves s m2 row_no col_no
      in m3 @ m3)"

text \<open>
  \<^verbatim>\<open>get_castles\<close>.  \<open>unmoved s sq\<close> is \<^verbatim>\<open>not any((move.startRow, move.startCol) == sq for
  move in self.movelog)\<close>.  The \<^verbatim>\<open>print\<close> in the white queenside branch is output only.
\<close>

definition unmoved :: "game_state \<Rightarrow> int \<times> int \<Rightarrow> bool" where
  "unmoved s sq = (\<not> list_ex (\<lambda>m. (startRow m, startCol m) = sq) (movelog s))"

definition castle_move :: "game_state \<Rightarrow> int \<Rightarrow> int \<Rightarrow> int \<Rightarrow> int \<Rightarrow> move" where
  "castle_move s row rook_from rook_to king_to =
     (let rook_move = new_move (board s) (row, rook_from) (row, rook_to) None None None
      in new_move (board s) (row, 4) (row, king_to) None None (Some rook_move))"

definition castles_row :: "game_state \<Rightarrow> move list \<Rightarrow> int \<Rightarrow> move list" where
  "castles_row s moves row =
     (if unmoved s (row, 4) then
        (let m1 = (if unmoved s (row, 7)
                      \<and> \<not> list_ex (\<lambda>x. x) [board s (row, 5) \<noteq> None, board s (row, 6) \<noteq> None]
                   then moves @ [castle_move s row 7 5 6] else moves)
         in if unmoved s (row, 0)
               \<and> \<not> list_ex (\<lambda>x. x) [board s (row, 1) \<noteq> None, board s (row, 2) \<noteq> None,
                                      board s (row, 3) \<noteq> None]
            then m1 @ [castle_move s row 0 3 2] else m1)
      else moves)"

definition get_castles :: "game_state \<Rightarrow> move list \<Rightarrow> move list" where
  "get_castles s moves = (if white_move s then castles_row s moves 7 else castles_row s moves 0)"

text \<open>
  \<^verbatim>\<open>get_possible_moves\<close>: the board is scanned row by row, column by column; each cell of the
  side to move dispatches on its piece type.
\<close>

definition piece_moves :: "game_state \<Rightarrow> move list \<Rightarrow> int \<Rightarrow> int \<Rightarrow> error + move list" where
  "piece_moves s moves row_no col_no =
     (let player_piece = board s (row_no, col_no)
      in if starts_with player_piece (turn s) then
           (case player_piece of
              None \<Rightarrow> Inr moves
            | Some (c, piece) \<Rightarrow>
                if piece = Pawn then
                  get_en_passant s (get_pawn_moves s moves row_no col_no) row_no col_no
                else if piece = King then
                  Inr (get_castles s (get_king_moves s moves row_no col_no))
                else if piece = Queen then Inr (get_queen_moves s moves row_no col_no)
                else if piece = Rook then Inr (get_rook_moves s moves row_no col_no)
                else if piece = Knight then Inr (get_knight_moves s moves row_no col_no)
                else if piece = Bishop then Inr (get_bishop_moves s moves row_no col_no)
                else Inr moves)
         else Inr moves)"

fun scan :: "game_state \<Rightarrow> (int \<times> int) list \<Rightarrow> move list \<Rightarrow> error + move list" where
  "scan s [] moves = Inr moves"
| "scan s ((r, c) # sqs) moves =
     (case piece_moves s moves r c of
        Inl e \<Rightarrow> Inl e
      | Inr moves' \<Rightarrow> scan s sqs moves')"

definition squares :: "(int \<times> int) list" where
  "squares = concat (map (\<lambda>r. map (\<lambda>c. (r, c)) [0, 1, 2, 3, 4, 5, 6, 7]) [0, 1, 2, 3, 4, 5, 6, 7])"

definition get_possible_moves :: "game_state \<Rightarrow> error + move list" where
  "get_possible_moves s = scan s squares []"

subsection \<open>Attack detection, legality filter, terminal state\<close>

definition flip_turn :: "game_state \<Rightarrow> game_state" where
  "flip_turn s = s\<lparr>white_move := \<not> white_move s\<rparr>"

definition square_attacked :: "game_state \<Rightarrow> int \<Rightarrow> int \<Rightarrow> error + (bool \<times> game_state)" where
  "square_attacked s row col =
     (let s1 = flip_turn s
      in case get_possible_moves s1 of
           Inl e \<Rightarrow> Inl e
         | Inr possible_moves \<Rightarrow>
             Inr (list_ex (\<lambda>m. endRow m = row \<and> endCol m = col) possible_moves, flip_turn s1))"

definition in_check :: "game_state \<Rightarrow> error + (bool \<times> game_state)" where
  "in_check s =
     (if white_move s
      then square_attacked s (fst (white_king_loc s)) (snd (white_king_loc s))
      else square_attacked s (fst (black_king_loc s)) (snd (black_king_loc s)))"

text \<open>
  \<^verbatim>\<open>check_game_state\<close> tests \<^verbatim>\<open>if self.in_check:\<close>, the bound method itself and not its
  result; a method object is always true.
\<close>

definition in_check_attr_truth :: bool where
  "in_check_attr_truth = True"

definition check_game_state :: "move list \<Rightarrow> game_state \<Rightarrow> game_state" where
  "check_game_state moves s =
     (if moves = [] then
        (if in_check_attr_truth then s\<lparr>checkmate := True\<rparr> else s\<lparr>stalemate := True\<rparr>)
      else s)"

text \<open>\<^verbatim>\<open>list.remove(x)\<close>: drops the first element equal to \<open>x\<close> under \<^verbatim>\<open>__eq__\<close>, else ValueError.\<close>

fun list_remove :: "move \<Rightarrow> move list \<Rightarrow> error + move list" where
  "list_remove x [] = Inl ValueError"
| "list_remove x (y # ys) =
     (if move_eq y x then Inr ys
      else case list_remove x ys of Inl e \<Rightarrow> Inl e | Inr ys' \<Rightarrow> Inr (y # ys'))"

text \<open>
  \<^verbatim>\<open>remove_selfchecks\<close>: the loop runs over a copy of the list while the list itself
  shrinks.
\<close>

fun selfcheck_loop ::
  "move list \<Rightarrow> move list \<Rightarrow> game_state \<Rightarrow> error + (move list \<times> game_state)" where
  "selfcheck_loop [] moves s = Inr (moves, s)"
| "selfcheck_loop (m # rest) moves s =
     (let s1 = make_move m True s;
          s2 = flip_turn s1
      in case in_check s2 of
           Inl e \<Rightarrow> Inl e
         | Inr (chk, s3) \<Rightarrow>
             (case (if chk then list_remove m moves else Inr moves) of
                Inl e \<Rightarrow> Inl e
              | Inr moves' \<Rightarrow> selfcheck_loop rest moves' (undo_move (flip_turn s3))))"

definition remove_selfchecks :: "move list \<Rightarrow> game_state \<Rightarrow> error + (move list \<times> game_state)" where
  "remove_selfchecks moves s = selfcheck_loop moves moves s"

definition get_valid_moves :: "game_state \<Rightarrow> error + (move list \<times> game_state)" where
  "get_valid_moves s =
     (case get_possible_moves s of
        Inl e \<Rightarrow> Inl e
      | Inr possible_moves \<Rightarrow>
          (case remove_selfchecks possible_moves s of
             Inl e \<Rightarrow> Inl e
           | Inr (moves, s1) \<Rightarrow> Inr (moves, check_game_state moves s1)))"

section \<open>Positions used below\<close>

text \<open>
  The driver's step for an ordinary move: \<^verbatim>\<open>Move(gs.board, from, to)\<close> built from two
  clicked squares, then \<^verbatim>\<open>gs.make_move(move)\<close>.
\<close>

definition play :: "game_state \<Rightarrow> int \<times> int \<Rightarrow> int \<times> int \<Rightarrow> game_state" where
  "play s a b = make_move (new_move (board s) a b None None None) True s"

text \<open>
  White king a1, black queen b3, black king h8, White to move; the log records that the white
  king has left e1.  The king is not attacked and has no square to go to.
\<close>

definition stalemate_pos :: game_state where
  "stalemate_pos =
     \<lparr>board = (\<lambda>sq. None)((7, 0) := Some (White, King), (5, 1) := Some (Black, Queen),
                           (0, 7) := Some (Black, King)),
      white_move = True,
      movelog = [Move 7 4 7 3 (Some (White, King)) 7 3 None None,
                 Move 5 7 5 1 (Some (Black, Queen)) 5 1 None None],
      checkmate = False, stalemate = False,
      white_king_loc = (7, 0), black_king_loc = (0, 7)\<rparr>"

text \<open>After 1. e3 e6: the white pawn d2 stands diagonally behind the white pawn e3.\<close>

definition own_capture_pos :: game_state where
  "own_capture_pos = play (play GameState (6, 4) (5, 4)) (1, 4) (2, 4)"

text \<open>After 1. a3 e5 2. a4 e4 3. d4: the white d-pawn has just landed beside the black pawn e4.\<close>

definition black_ep_pos :: game_state where
  "black_ep_pos =
     play (play (play (play (play GameState (6, 0) (5, 0)) (1, 4) (3, 4)) (5, 0) (4, 0)) (3, 4) (4, 4))
          (6, 3) (4, 3)"

section \<open>Move identity\<close>

lemma dcat_small: "b < 10 \<Longrightarrow> dcat a b = 10 * a + b"
  by (simp add: dcat_def)

lemma digits2_inj:
  fixes a b a' b' :: nat
  assumes "b < 10" "b' < 10" "10 * a + b = 10 * a' + b'"
  shows "a = a' \<and> b = b'"
  using assms by arith

lemma move_id_small:
  assumes "on_board (startRow m) (startCol m)" "on_board (endRow m) (endCol m)"
  shows "move_id m =
           10 * (10 * (10 * nat (startRow m) + nat (startCol m)) + nat (endRow m)) + nat (endCol m)"
proof -
  have "nat (startCol m) < 10" "nat (endRow m) < 10" "nat (endCol m) < 10"
    using assms by (auto simp: on_board_def)
  then show ?thesis by (simp add: move_id_def dcat_small)
qed

text \<open>
  C8.  For moves whose coordinates are all in 0..7, \<^verbatim>\<open>__eq__\<close> (equality of the
  digit-concatenated \<^verbatim>\<open>move_id\<close>) holds exactly when the start squares and the end squares
  agree; the moved piece, the captured piece and square and the secondary move play no part.
\<close>

theorem move_eq_iff_same_squares:
  assumes m: "on_board (startRow m) (startCol m)" "on_board (endRow m) (endCol m)"
      and m': "on_board (startRow m') (startCol m')" "on_board (endRow m') (endCol m')"
  shows "move_eq m m' \<longleftrightarrow>
           (startRow m, startCol m) = (startRow m', startCol m') \<and>
           (endRow m, endCol m) = (endRow m', endCol m')"
proof
  assume eq: "move_eq m m'"
  have b: "nat (startCol m) < 10" "nat (endRow m) < 10" "nat (endCol m) < 10"
          "nat (startCol m') < 10" "nat (endRow m') < 10" "nat (endCol m') < 10"
    using m m' by (auto simp: on_board_def)
  from eq have e0:
    "10 * (10 * (10 * nat (startRow m) + nat (startCol m)) + nat (endRow m)) + nat (endCol m)
     = 10 * (10 * (10 * nat (startRow m') + nat (startCol m')) + nat (endRow m')) + nat (endCol m')"
    by (simp add: move_eq_def move_id_small[OF m] move_id_small[OF m'])
  from digits2_inj[OF b(3) b(6) e0]
  have e1: "10 * (10 * nat (startRow m) + nat (startCol m)) + nat (endRow m)
     = 10 * (10 * nat (startRow m') + nat (startCol m')) + nat (endRow m')"
    and d: "nat (endCol m) = nat (endCol m')" by simp_all
  from digits2_inj[OF b(2) b(5) e1]
  have e2: "10 * nat (startRow m) + nat (startCol m) = 10 * nat (startRow m') + nat (startCol m')"
    and c: "nat (endRow m) = nat (endRow m')" by simp_all
  from digits2_inj[OF b(1) b(4) e2]
  have a: "nat (startRow m) = nat (startRow m')" and bb: "nat (startCol m) = nat (startCol m')"
    by simp_all
  show "(startRow m, startCol m) = (startRow m', startCol m') \<and>
        (endRow m, endCol m) = (endRow m', endCol m')"
    using a bb c d m m' unfolding on_board_def by auto
next
  assume "(startRow m, startCol m) = (startRow m', startCol m') \<and>
          (endRow m, endCol m) = (endRow m', endCol m')"
  then show "move_eq m m'" by (simp add: move_eq_def move_id_def)
qed

text \<open>
  An en-passant capture and the plain move between the same two squares differ in the captured
  square and piece, and are equal as moves.
\<close>

theorem move_eq_iff_same_squares_witness:
  "on_board 3 4 \<and> on_board 2 5 \<and>
   Move 3 4 2 5 (Some (White, Pawn)) 2 5 None None
     \<noteq> Move 3 4 2 5 (Some (White, Pawn)) 3 5 (Some (Black, Pawn)) None \<and>
   move_eq (Move 3 4 2 5 (Some (White, Pawn)) 2 5 None None)
           (Move 3 4 2 5 (Some (White, Pawn)) 3 5 (Some (Black, Pawn)) None)"
  using move_eq_iff_same_squares
    [of "Move 3 4 2 5 (Some (White, Pawn)) 2 5 None None"
        "Move 3 4 2 5 (Some (White, Pawn)) 3 5 (Some (Black, Pawn)) None"]
  by (simp add: on_board_def)

section \<open>Undo with an empty log\<close>

text \<open>
  C9.  With an empty move log \<^verbatim>\<open>undo_move\<close> returns the state it was given: board, side
  to move, king locations, log and both flags are unchanged, and nothing is raised.
\<close>

theorem undo_move_empty_log: "movelog s = [] \<Longrightarrow> undo_move s = s"
  by (simp add: undo_move_def)

theorem undo_move_empty_log_witness:
  "movelog GameState = [] \<and> undo_move GameState = GameState"
  using undo_move_empty_log[of GameState] by (simp add: GameState_def)

section \<open>Terminal-state flags\<close>

text \<open>
  C3.  In \<open>stalemate_pos\<close> the side to move is not in check and the legal-move query returns
  the empty list; the query then sets the checkmate flag and leaves the stalemate flag unset,
  because \<^verbatim>\<open>check_game_state\<close> tests the method object \<^verbatim>\<open>self.in_check\<close> instead of
  calling it.
\<close>

theorem stalemate_position_flagged_checkmate:
  "(case in_check stalemate_pos of Inr (chk, s') \<Rightarrow> \<not> chk | Inl e \<Rightarrow> False) \<and>
   (case get_valid_moves stalemate_pos of
      Inr (ms, s') \<Rightarrow> ms = [] \<and> checkmate s' \<and> \<not> stalemate s'
    | Inl e \<Rightarrow> False)"
  by code_simp

section \<open>Pseudo-legal generation\<close>

text \<open>
  C5.  After 1. e3 e6, with White to move, pseudo-legal generation returns the move of the white
  pawn d2 onto e3, a square held by a white pawn, which it records as the captured piece.
\<close>

theorem pawn_captures_own_piece:
  "white_move own_capture_pos \<and> board own_capture_pos (5, 4) = Some (White, Pawn) \<and>
   (case get_possible_moves own_capture_pos of
      Inr ms \<Rightarrow> list_ex (\<lambda>m. (startRow m, startCol m) = (6, 3) \<and> (endRow m, endCol m) = (5, 4)
                             \<and> piece_moved m = Some (White, Pawn)
                             \<and> piece_captured m = Some (White, Pawn)) ms
    | Inl e \<Rightarrow> False)"
  by code_simp

text \<open>
  C6.  After 1. a3 e5 2. a4 e4 3. d4 the last logged move is the white pawn's two-square advance
  d2-d4, landing beside the black pawn on e4 (row 4), and it is Black's move; pseudo-legal
  generation returns no move from e4 to d3.
\<close>

theorem black_en_passant_not_generated:
  "\<not> white_move black_ep_pos \<and>
   board black_ep_pos (4, 4) = Some (Black, Pawn) \<and>
   board black_ep_pos (4, 3) = Some (White, Pawn) \<and>
   last (movelog black_ep_pos) = Move 6 3 4 3 (Some (White, Pawn)) 4 3 None None \<and>
   (case get_possible_moves black_ep_pos of
      Inr ms \<Rightarrow> \<not> list_ex (\<lambda>m. (startRow m, startCol m) = (4, 4) \<and> (endRow m, endCol m) = (5, 3)) ms
    | Inl e \<Rightarrow> False)"
  by code_simp

end
